theory Spec2Isabelle
  imports Main "HOL-Library.Sublist"
begin

section \<open>Data model (src/types/index.ts)\<close>

text \<open>
  The records follow the TypeScript interfaces. Optional fields are \<open>option\<close>s.
  \<open>id\<close> is written \<open>id'\<close> (it clashes with the identity function); the fields of
  \<open>JwtResponse\<close>, \<open>LoginData\<close> and the validate response carry a prefix where a
  field of the same name exists in another interface. Identifiers are JavaScript numbers
  that hold integers, modelled as \<open>int\<close>.
\<close>

record User =
  id' :: int
  name :: string
  email :: string
  bio :: "string option"
  avatarUrl :: "string option"
  emailVerified :: bool
  active :: bool
  createdAt :: string
  reviewCount :: int
  favoriteBooksCount :: int

record LoginData =
  login_email :: string
  login_password :: string
  rememberMe :: "bool option"

record JwtResponse =
  jwt_token :: string
  jwt_type :: string
  jwt_userId :: int
  jwt_name :: string
  jwt_email :: string
  jwt_expiresAt :: string

record TokenValidation =
  valid :: bool
  val_userId :: int
  val_email :: string
  val_name :: string

record PasswordChangeData =
  currentPassword :: string
  newPassword :: string
  confirmPassword :: string

record 'a ApiResponse =
  success :: bool
  message :: string
  data :: "'a option"

section \<open>The browser and the HTTP transport, as explicit state\<close>

text \<open>
  A thrown value is either the transport's error (\<open>error.response?.status\<close>,
  \<open>error.config?.url\<close>, message), a \<open>new Error(message)\<close> of the application, or
  the \<open>SyntaxError\<close> of \<open>JSON.parse\<close>.
\<close>

datatype error =
    AxiosError "nat option" "string option" string
  | Error string
  | SyntaxError

datatype jsval = JStr string | JNum int | JBool bool | JUndefined

datatype http_method = GET | POST | PUT | DELETE

record AxiosRequestConfig =
  req_method :: http_method
  req_url :: string
  req_headers :: "string \<rightharpoonup> string"
  req_data :: "(string \<times> jsval) list option"

text \<open>The reducer's state (AuthContext, \<open>interface AuthState\<close>).\<close>

record AuthState =
  user :: "User option"
  token :: "string option"
  loading :: bool
  isAuthenticated :: bool

text \<open>
  The actions. The user payload is typed \<open>User\<close> in the source, but the reducer stores
  it unchecked and the provider dispatches values that the type checker never saw (the
  result of \<open>JSON.parse\<close>, a response body), so at run time it can be \<open>null\<close>: the
  payload is a \<open>User option\<close>, \<open>None\<close> for \<open>null\<close>.
\<close>

datatype AuthAction =
    SET_LOADING bool
  | LOGIN_SUCCESS "User option" string
  | LOGIN_FAILURE
  | LOGOUT
  | SET_USER "User option"

text \<open>
  Everything the code reads and writes outside its arguments: \<open>localStorage\<close>, the
  axios instance's \<open>defaults.headers.common\<close>, \<open>window.location.href\<close>, the
  \<open>console.error\<close> log, the requests handed to the network (in order), and the
  provider's reducer state.
\<close>

record World =
  localStorage :: "string \<rightharpoonup> string"
  defaults_headers_common :: "string \<rightharpoonup> string"
  location_href :: string
  console :: "(string \<times> error) list"
  sent :: "AxiosRequestConfig list"
  state :: AuthState

text \<open>
  What the JavaScript runtime supplies: the clock behind \<open>new Date().toISOString()\<close>,
  \<open>JSON.stringify\<close> on a user object, \<open>JSON.parse\<close> on a stored string, and the
  exponent notation in which a template literal prints a number from \<open>1e21\<close> on.
  \<open>JSON.parse\<close> either throws (\<open>Inl\<close>) or returns a value (\<open>Inr\<close>): \<open>null\<close> for the
  text \<open>null\<close> (\<open>None\<close>), or an object, which the source takes for a \<open>User\<close> without
  a check.
\<close>

record Runtime =
  now_iso :: string
  JSON_stringify :: "User \<Rightarrow> string"
  JSON_parse :: "string \<Rightarrow> error + User option"
  number_exponent_form :: "int \<Rightarrow> string"

text \<open>
  The outcome of one HTTP exchange as the transport reports it: \<open>Inr d\<close> is a 2xx
  response with body \<open>d\<close>; \<open>Inl (status, msg)\<close> is a failure, with the HTTP status when
  a response arrived.
\<close>

type_synonym 'a outcome = "(nat option \<times> string) + 'a"

definition getItem :: "string \<Rightarrow> World \<Rightarrow> string option" where
  "getItem k w = localStorage w k"

definition setItem :: "string \<Rightarrow> string \<Rightarrow> World \<Rightarrow> World" where
  "setItem k v w = w\<lparr>localStorage := (localStorage w)(k \<mapsto> v)\<rparr>"

definition removeItem :: "string \<Rightarrow> World \<Rightarrow> World" where
  "removeItem k w = w\<lparr>localStorage := (localStorage w)(k := None)\<rparr>"

definition console_error :: "string \<Rightarrow> error \<Rightarrow> World \<Rightarrow> World" where
  "console_error label e w = w\<lparr>console := console w @ [(label, e)]\<rparr>"

text \<open>
  JavaScript truthiness of \<open>string | null\<close>: \<open>null\<close> and the empty string are falsy.
\<close>

definition truthy :: "string option \<Rightarrow> bool" where
  "truthy s = (case s of None \<Rightarrow> False | Some v \<Rightarrow> v \<noteq> [])"

text \<open>\<open>String.prototype.includes\<close>: the argument occurs somewhere in the string.\<close>

fun str_includes :: "string \<Rightarrow> string \<Rightarrow> bool" where
  "str_includes [] sub = (sub = [])"
| "str_includes (c # cs) sub = (prefix sub (c # cs) \<or> str_includes cs sub)"

text \<open>
  A template literal \<open>${n}\<close> for an integer \<open>n\<close>. Below \<open>1e21\<close> in absolute value it is
  the decimal digits of \<open>n\<close>, with a sign; from \<open>1e21\<close> on JavaScript prints exponent
  notation, which the runtime supplies.
\<close>

definition digit_char :: "nat \<Rightarrow> char" where
  "digit_char d = ''0123456789'' ! (d mod 10)"

function nat_digits :: "nat \<Rightarrow> string" where
  "nat_digits n =
     (if n < 10 then [digit_char n]
      else nat_digits (n div 10) @ [digit_char (n mod 10)])"
  by pat_completeness auto
termination
  by (relation "measure (\<lambda>n. n)") auto

declare nat_digits.simps [simp del]

definition int_decimal :: "int \<Rightarrow> string" where
  "int_decimal i = (if i < 0 then CHR ''-'' # nat_digits (nat (- i)) else nat_digits (nat i))"

definition js_number :: "Runtime \<Rightarrow> int \<Rightarrow> string" where
  "js_number rt i = (if \<bar>i\<bar> < 10 ^ 21 then int_decimal i else number_exponent_form rt i)"

text \<open>Reading the digits back, to state that the rendering loses nothing.\<close>

definition digit_value :: "char \<Rightarrow> nat" where
  "digit_value c = of_char c - 48"

definition digits_value :: "string \<Rightarrow> nat" where
  "digits_value cs = foldl (\<lambda>a c. 10 * a + digit_value c) 0 cs"

section \<open>API client (src/services/api.ts)\<close>

text \<open>
  Request interceptor: \<open>const token = localStorage.getItem('token'); if (token)
  config.headers.Authorization = `Bearer ${token}`; return config\<close>.
\<close>

definition requestInterceptor :: "World \<Rightarrow> AxiosRequestConfig \<Rightarrow> AxiosRequestConfig" where
  "requestInterceptor w config =
     (case getItem ''token'' w of
        Some tok \<Rightarrow>
          if tok \<noteq> [] then
            config\<lparr>req_headers := (req_headers config)(''Authorization'' \<mapsto> ''Bearer '' @ tok)\<rparr>
          else config
      | None \<Rightarrow> config)"

text \<open>
  Response interceptor, rejection handler. \<open>error.response?.status === 401\<close>; then
  \<open>url = error.config?.url || ''\<close>; when the url includes \<open>/auth/\<close> or \<open>/profile\<close>
  both entries are removed and the browser is sent to \<open>/login\<close>. It always returns
  \<open>Promise.reject(error)\<close>: the first component is the rejection.
\<close>

definition error_status :: "error \<Rightarrow> nat option" where
  "error_status e = (case e of AxiosError st _ _ \<Rightarrow> st | _ \<Rightarrow> None)"

definition error_url :: "error \<Rightarrow> string" where
  "error_url e =
     (case e of
        AxiosError _ (Some u) _ \<Rightarrow> u
      | _ \<Rightarrow> [])"

definition responseRejected :: "error \<Rightarrow> World \<Rightarrow> error \<times> World" where
  "responseRejected e w =
     (if error_status e = Some 401 then
        (let url = error_url e in
         if str_includes url ''/auth/'' \<or> str_includes url ''/profile'' then
           (e, (removeItem ''user'' (removeItem ''token'' w))\<lparr>location_href := ''/login''\<rparr>)
         else (e, w))
      else (e, w))"

text \<open>
  One call of the axios instance. The instance's default headers (the common ones and
  the \<open>Content-Type\<close> given to \<open>axios.create\<close>) are merged into the request before the
  request interceptor runs; the request is then handed to the network; a failure passes
  through the response interceptor with the request's own url in \<open>error.config\<close>.
\<close>

definition base_headers :: "World \<Rightarrow> (string \<rightharpoonup> string)" where
  "base_headers w = (defaults_headers_common w)(''Content-Type'' \<mapsto> ''application/json'')"

definition request ::
  "http_method \<Rightarrow> string \<Rightarrow> (string \<times> jsval) list option \<Rightarrow> 'a outcome \<Rightarrow> World
     \<Rightarrow> (error + 'a) \<times> World" where
  "request m u d out w =
     (let config = requestInterceptor w
            \<lparr>req_method = m, req_url = u, req_headers = base_headers w, req_data = d\<rparr>;
          w1 = w\<lparr>sent := sent w @ [config]\<rparr>
      in case out of
           Inr r \<Rightarrow> (Inr r, w1)
         | Inl (st, msg) \<Rightarrow>
             (let (e, w2) = responseRejected (AxiosError st (Some u) msg) w1 in (Inl e, w2)))"

text \<open>What a request says to the backend, apart from its headers.\<close>

definition request_line ::
  "AxiosRequestConfig \<Rightarrow> http_method \<times> string \<times> (string \<times> jsval) list option" where
  "request_line q = (req_method q, req_url q, req_data q)"

definition loginData_body :: "LoginData \<Rightarrow> (string \<times> jsval) list" where
  "loginData_body ld =
     [(''email'', JStr (login_email ld)), (''password'', JStr (login_password ld))] @
     (case rememberMe ld of None \<Rightarrow> [] | Some b \<Rightarrow> [(''rememberMe'', JBool b)])"

definition apiService_login ::
  "LoginData \<Rightarrow> JwtResponse outcome \<Rightarrow> World \<Rightarrow> (error + JwtResponse) \<times> World" where
  "apiService_login loginData out w = request POST ''/auth/login'' (Some (loginData_body loginData)) out w"

definition apiService_validateToken ::
  "TokenValidation outcome \<Rightarrow> World \<Rightarrow> (error + TokenValidation) \<times> World" where
  "apiService_validateToken out w = request GET ''/auth/validate'' None out w"

definition apiService_logout :: "unit outcome \<Rightarrow> World \<Rightarrow> (error + unit) \<times> World" where
  "apiService_logout out w = request POST ''/auth/logout'' None out w"

definition apiService_changePassword ::
  "PasswordChangeData \<Rightarrow> 'a ApiResponse outcome \<Rightarrow> World \<Rightarrow> (error + 'a ApiResponse) \<times> World" where
  "apiService_changePassword passwordData out w =
     request PUT ''/auth/change-password''
       (Some [(''currentPassword'', JStr (currentPassword passwordData)),
              (''newPassword'', JStr (newPassword passwordData))]) out w"

record ProfileUpdateData =
  profile_name :: "string option"
  profile_bio :: "string option"
  profile_avatarUrl :: "string option"

definition profile_body :: "ProfileUpdateData \<Rightarrow> (string \<times> jsval) list" where
  "profile_body pd =
     [(''name'', (case profile_name pd of None \<Rightarrow> JUndefined | Some v \<Rightarrow> JStr v)),
      (''bio'', (case profile_bio pd of None \<Rightarrow> JUndefined | Some v \<Rightarrow> JStr v)),
      (''avatarUrl'', (case profile_avatarUrl pd of None \<Rightarrow> JUndefined | Some v \<Rightarrow> JStr v))]"

definition apiService_updateUserProfile ::
  "ProfileUpdateData \<Rightarrow> User ApiResponse outcome \<Rightarrow> World \<Rightarrow> (error + User ApiResponse) \<times> World" where
  "apiService_updateUserProfile profileData out w =
     request PUT ''/auth/profile'' (Some (profile_body profileData)) out w"

text \<open>
  \<open>getUserProfile\<close> returns the response body as it is: a user, or \<open>null\<close> when the
  backend sends that.
\<close>

definition apiService_getUserProfile ::
  "User option outcome \<Rightarrow> World \<Rightarrow> (error + User option) \<times> World" where
  "apiService_getUserProfile out w = request GET ''/auth/profile'' None out w"

definition setAuthToken :: "string \<Rightarrow> World \<Rightarrow> World" where
  "setAuthToken tok w =
     w\<lparr>defaults_headers_common := (defaults_headers_common w)(''Authorization'' \<mapsto> ''Bearer '' @ tok)\<rparr>"

definition clearAuthToken :: "World \<Rightarrow> World" where
  "clearAuthToken w =
     w\<lparr>defaults_headers_common := (defaults_headers_common w)(''Authorization'' := None)\<rparr>"

section \<open>Auth state store (contexts/AuthContext.tsx)\<close>

text \<open>
  The reducer stores \<open>action.payload.user\<close> and \<open>action.payload\<close> as they come.
\<close>

definition initialState :: AuthState where
  "initialState = \<lparr>user = None, token = None, loading = True, isAuthenticated = False\<rparr>"

fun authReducer :: "AuthState \<Rightarrow> AuthAction \<Rightarrow> AuthState" where
  "authReducer s (SET_LOADING b) = s\<lparr>loading := b\<rparr>"
| "authReducer s (LOGIN_SUCCESS p t) =
     s\<lparr>user := p, token := Some t, loading := False, isAuthenticated := True\<rparr>"
| "authReducer s LOGIN_FAILURE =
     s\<lparr>user := None, token := None, loading := False, isAuthenticated := False\<rparr>"
| "authReducer s LOGOUT =
     s\<lparr>user := None, token := None, loading := False, isAuthenticated := False\<rparr>"
| "authReducer s (SET_USER p) =
     s\<lparr>user := p, loading := False, isAuthenticated := True\<rparr>"

definition dispatch :: "AuthAction \<Rightarrow> World \<Rightarrow> World" where
  "dispatch a w = w\<lparr>state := authReducer (state w) a\<rparr>"

text \<open>
  \<open>initializeAuth\<close>, run once on mount. The \<open>JSON.parse\<close> stands inside the \<open>try\<close>, so
  its exception takes the \<open>catch\<close> branch like a rejected validation call; whatever it
  returns is dispatched as the user, \<open>null\<close> included.
\<close>

definition initializeAuth_catch :: "error \<Rightarrow> World \<Rightarrow> World" where
  "initializeAuth_catch e w =
     dispatch LOGIN_FAILURE
       (removeItem ''user'' (removeItem ''token''
          (console_error ''AuthContext - Token validation error:'' e w)))"

definition initializeAuth :: "Runtime \<Rightarrow> TokenValidation outcome \<Rightarrow> World \<Rightarrow> World" where
  "initializeAuth rt out w =
     (case (getItem ''token'' w, getItem ''user'' w) of
        (Some tok, Some userStr) \<Rightarrow>
          if tok \<noteq> [] \<and> userStr \<noteq> [] then
            (let (res, w1) = apiService_validateToken out w in
             case res of
               Inr validation \<Rightarrow>
                 if valid validation then
                   (case JSON_parse rt userStr of
                      Inr parsed \<Rightarrow> dispatch (LOGIN_SUCCESS parsed tok) (setAuthToken tok w1)
                    | Inl e \<Rightarrow> initializeAuth_catch e w1)
                 else dispatch LOGIN_FAILURE (removeItem ''user'' (removeItem ''token'' w1))
             | Inl e \<Rightarrow> initializeAuth_catch e w1)
          else dispatch (SET_LOADING False) w
      | _ \<Rightarrow> dispatch (SET_LOADING False) w)"

text \<open>\<open>login\<close>: the result is \<open>Inl e\<close> when the promise rejects with \<open>e\<close>.\<close>

definition login ::
  "Runtime \<Rightarrow> string \<Rightarrow> string \<Rightarrow> JwtResponse outcome \<Rightarrow> World \<Rightarrow> (error + unit) \<times> World" where
  "login rt em pw out w =
     (let w0 = dispatch (SET_LOADING True) w;
          loginData = \<lparr>login_email = em, login_password = pw, rememberMe = None\<rparr>;
          (res, w1) = apiService_login loginData out w0
      in case res of
           Inr response \<Rightarrow>
             (let u = \<lparr>id' = jwt_userId response, name = jwt_name response,
                       email = jwt_email response, bio = None, avatarUrl = None,
                       emailVerified = True, active = True, createdAt = now_iso rt,
                       reviewCount = 0, favoriteBooksCount = 0\<rparr>;
                  w2 = setItem ''token'' (jwt_token response) w1;
                  w3 = setItem ''user'' (JSON_stringify rt u) w2;
                  w4 = setAuthToken (jwt_token response) w3
              in (Inr (), dispatch (LOGIN_SUCCESS (Some u) (jwt_token response)) w4))
         | Inl e \<Rightarrow> (Inl e, dispatch LOGIN_FAILURE w1))"

text \<open>\<open>logout\<close>: \<open>try { await apiService.logout() } catch { console.error } finally { ... }\<close>.\<close>

definition logout :: "unit outcome \<Rightarrow> World \<Rightarrow> (error + unit) \<times> World" where
  "logout out w =
     (let (res, w1) = apiService_logout out w;
          w2 = (case res of Inr _ \<Rightarrow> w1 | Inl e \<Rightarrow> console_error ''Logout error:'' e w1);
          w3 = removeItem ''token'' w2;
          w4 = removeItem ''user'' w3;
          w5 = clearAuthToken w4
      in (Inr (), dispatch LOGOUT w5))"

text \<open>
  \<open>changePassword\<close> of the provider: the local check throws before any request; a
  response with \<open>success = false\<close> throws its message, or the fallback when the message
  is empty.
\<close>

definition changePassword ::
  "PasswordChangeData \<Rightarrow> 'a ApiResponse outcome \<Rightarrow> World \<Rightarrow> (error + unit) \<times> World" where
  "changePassword passwordData out w =
     (if newPassword passwordData \<noteq> confirmPassword passwordData then
        (Inl (Error ''New password and confirm password do not match''), w)
      else
        (let (res, w1) = apiService_changePassword passwordData out w in
         case res of
           Inr response \<Rightarrow>
             if \<not> success response then
               (Inl (Error (if message response \<noteq> [] then message response
                            else ''Password change failed'')), w1)
             else (Inr (), w1)
         | Inl e \<Rightarrow> (Inl e, w1)))"

text \<open>
  \<open>updateProfile\<close>: adopts the returned user through \<open>SET_USER\<close>; on any failure it
  only stops loading and rethrows.
\<close>

definition updateProfile ::
  "Runtime \<Rightarrow> ProfileUpdateData \<Rightarrow> User ApiResponse outcome \<Rightarrow> World \<Rightarrow> (error + unit) \<times> World" where
  "updateProfile rt profileData out w =
     (let w0 = dispatch (SET_LOADING True) w;
          (res, w1) = apiService_updateUserProfile profileData out w0
      in case res of
           Inr response \<Rightarrow>
             (case data response of
                Some u \<Rightarrow>
                  if success response then
                    (Inr (), dispatch (SET_USER (Some u)) (setItem ''user'' (JSON_stringify rt u) w1))
                  else
                    (Inl (Error (if message response \<noteq> [] then message response
                                 else ''Profile update failed'')),
                     dispatch (SET_LOADING False) w1)
              | None \<Rightarrow>
                  (Inl (Error (if message response \<noteq> [] then message response
                               else ''Profile update failed'')),
                   dispatch (SET_LOADING False) w1))
         | Inl e \<Rightarrow> (Inl e, dispatch (SET_LOADING False) w1))"

text \<open>
  \<open>refreshProfile\<close>: nothing when not authenticated; otherwise the profile body is
  persisted and dispatched as it comes; a failure is logged and swallowed.
\<close>

definition refreshProfile ::
  "Runtime \<Rightarrow> User option outcome \<Rightarrow> World \<Rightarrow> World" where
  "refreshProfile rt out w =
     (if \<not> isAuthenticated (state w) then w
      else
        (let (res, w1) = apiService_getUserProfile out w in
         case res of
           Inr profile \<Rightarrow>
             dispatch (SET_USER profile)
               (setItem ''user''
                  (case profile of Some u \<Rightarrow> JSON_stringify rt u | None \<Rightarrow> ''null'') w1)
         | Inl e \<Rightarrow> console_error ''Failed to refresh profile:'' e w1))"

section \<open>Favorites and recommendation calls of the API client\<close>

record FavoriteStatus =
  favorited :: bool
  fav_bookId :: int



definition apiService_addToFavorites ::
  "Runtime \<Rightarrow> int \<Rightarrow> 'a ApiResponse outcome \<Rightarrow> World \<Rightarrow> (error + 'a ApiResponse) \<times> World" where
  "apiService_addToFavorites rt bookId out w =
     request POST (''/books/'' @ js_number rt bookId @ ''/favorite'') None out w"

definition apiService_removeFromFavorites ::
  "Runtime \<Rightarrow> int \<Rightarrow> 'a ApiResponse outcome \<Rightarrow> World \<Rightarrow> (error + 'a ApiResponse) \<times> World" where
  "apiService_removeFromFavorites rt bookId out w =
     request DELETE (''/books/'' @ js_number rt bookId @ ''/favorite'') None out w"

definition apiService_checkFavoriteStatus ::
  "Runtime \<Rightarrow> int \<Rightarrow> FavoriteStatus outcome \<Rightarrow> World \<Rightarrow> (error + FavoriteStatus) \<times> World" where
  "apiService_checkFavoriteStatus rt bookId out w =
     request GET (''/books/'' @ js_number rt bookId @ ''/favorite'') None out w"



section \<open>Query cache\<close>

text \<open>
  Modelled from the spec: the keys and entries of the query cache (the cache is the
  query library's, outside the repository's files). A key is a tuple of a resource name
  and parameters; an entry holds the data, the time it was fetched (in milliseconds) and
  whether it has been invalidated.
\<close>

datatype keypart = KStr string | KNum int

record 'a CacheEntry =
  entry_data :: 'a
  updatedAt :: nat
  isInvalidated :: bool

type_synonym 'a QueryCache = "keypart list \<rightharpoonup> 'a CacheEntry"

record 'a QueryResult =
  q_data :: "'a option"
  q_error :: "error option"

text \<open>
  Modelled from the spec: the freshness test of the query cache (the cache is the
  query library's, outside the repository's files). An entry is served without a fetch
  while it is inside its stale-time window and has not been invalidated.
\<close>

definition is_fresh :: "'a CacheEntry \<Rightarrow> nat \<Rightarrow> nat \<Rightarrow> bool" where
  "is_fresh e staleTimeMs now = (\<not> isInvalidated e \<and> now < updatedAt e + staleTimeMs)"

text \<open>
  Modelled from the spec: \<open>query(key, fetchFn, {staleTimeMs, enabled})\<close> of the query
  cache. It returns the cached data when the entry is fresh, otherwise it invokes the
  fetch function once and stores the result under the key; \<open>enabled = false\<close> suppresses
  fetching entirely. A failed fetch leaves the cache as it is and surfaces the error.
\<close>

definition useQuery ::
  "keypart list \<Rightarrow> (World \<Rightarrow> (error + 'a) \<times> World) \<Rightarrow> nat \<Rightarrow> bool \<Rightarrow> nat
     \<Rightarrow> 'a QueryCache \<times> World \<Rightarrow> 'a QueryResult \<times> 'a QueryCache \<times> World" where
  "useQuery key fetchFn staleTimeMs enabled now cw =
     (let cache = fst cw; w = snd cw; cached = cache key in
      if enabled \<and> (case cached of None \<Rightarrow> True | Some e \<Rightarrow> \<not> is_fresh e staleTimeMs now) then
        (case fetchFn w of
           (Inr d, w1) \<Rightarrow>
             (\<lparr>q_data = Some d, q_error = None\<rparr>,
              cache(key \<mapsto> \<lparr>entry_data = d, updatedAt = now, isInvalidated = False\<rparr>), w1)
         | (Inl e, w1) \<Rightarrow>
             (\<lparr>q_data = map_option entry_data cached, q_error = Some e\<rparr>, cache, w1))
      else (\<lparr>q_data = map_option entry_data cached, q_error = None\<rparr>, cache, w))"

text \<open>
  Modelled from the spec: \<open>invalidate(keyPrefix)\<close> of the query cache marks every cached
  entry whose key starts with the prefix stale; it does not itself refetch.
\<close>

definition invalidateQueries :: "keypart list \<Rightarrow> 'a QueryCache \<Rightarrow> 'a QueryCache" where
  "invalidateQueries keyPrefix cache =
     (\<lambda>k. if prefix keyPrefix k
          then map_option (\<lambda>e. e\<lparr>isInvalidated := True\<rparr>) (cache k)
          else cache k)"

text \<open>The application's query client (App.tsx): \<open>staleTime: 5 * 60 * 1000\<close>.\<close>

definition default_staleTime :: nat where
  "default_staleTime = 5 * 60 * 1000"

section \<open>FavoriteButton (src/components/FavoriteButton.tsx)\<close>

text \<open>
  The cache holds the favorite status under \<open>['bookFavorite', bookId]\<close> and whatever
  other queries store (type \<open>'p\<close>) under their own keys.
\<close>

datatype 'p cached = FavoriteStatusData FavoriteStatus | OtherData 'p

text \<open>
  The status query: key \<open>['bookFavorite', bookId]\<close>, fetch function
  \<open>apiService.checkFavoriteStatus(bookId)\<close>, \<open>enabled: !!bookId && isAuthenticated\<close>.
\<close>

definition FavoriteButton_query ::
  "Runtime \<Rightarrow> bool \<Rightarrow> int \<Rightarrow> FavoriteStatus outcome \<Rightarrow> nat \<Rightarrow> 'p cached QueryCache \<times> World
     \<Rightarrow> 'p cached QueryResult \<times> 'p cached QueryCache \<times> World" where
  "FavoriteButton_query rt isAuth bookId out now cw =
     useQuery [KStr ''bookFavorite'', KNum bookId]
       (\<lambda>w. case apiService_checkFavoriteStatus rt bookId out w of
               (Inr d, w1) \<Rightarrow> (Inr (FavoriteStatusData d), w1)
             | (Inl e, w1) \<Rightarrow> (Inl e, w1))
       default_staleTime (bookId \<noteq> 0 \<and> isAuth) now cw"

text \<open>\<open>isFavorited = favoriteData?.favorited || false\<close>.\<close>

definition isFavorited :: "'p cached option \<Rightarrow> bool" where
  "isFavorited favoriteData =
     (case favoriteData of Some (FavoriteStatusData d) \<Rightarrow> favorited d | _ \<Rightarrow> False)"

text \<open>The \<open>onSuccess\<close> handler shared by both mutations.\<close>

definition FavoriteButton_onSuccess :: "int \<Rightarrow> 'a QueryCache \<Rightarrow> 'a QueryCache" where
  "FavoriteButton_onSuccess bookId cache =
     invalidateQueries [KStr ''userFavorites'']
       (invalidateQueries [KStr ''bookFavorite'', KNum bookId] cache)"

definition addToFavoritesMutation ::
  "Runtime \<Rightarrow> int \<Rightarrow> 'r ApiResponse outcome \<Rightarrow> 'a QueryCache \<times> World \<Rightarrow> 'a QueryCache \<times> World" where
  "addToFavoritesMutation rt bookId out cw =
     (case apiService_addToFavorites rt bookId out (snd cw) of
        (Inr _, w1) \<Rightarrow> (FavoriteButton_onSuccess bookId (fst cw), w1)
      | (Inl _, w1) \<Rightarrow> (fst cw, w1))"

definition removeFromFavoritesMutation ::
  "Runtime \<Rightarrow> int \<Rightarrow> 'r ApiResponse outcome \<Rightarrow> 'a QueryCache \<times> World \<Rightarrow> 'a QueryCache \<times> World" where
  "removeFromFavoritesMutation rt bookId out cw =
     (case apiService_removeFromFavorites rt bookId out (snd cw) of
        (Inr _, w1) \<Rightarrow> (FavoriteButton_onSuccess bookId (fst cw), w1)
      | (Inl _, w1) \<Rightarrow> (fst cw, w1))"

definition handleFavoriteToggle ::
  "Runtime \<Rightarrow> bool \<Rightarrow> int \<Rightarrow> 'p cached option \<Rightarrow> 'r ApiResponse outcome
     \<Rightarrow> 'p cached QueryCache \<times> World \<Rightarrow> 'p cached QueryCache \<times> World" where
  "handleFavoriteToggle rt isAuth bookId favoriteData out cw =
     (if \<not> isAuth then cw
      else if isFavorited favoriteData then removeFromFavoritesMutation rt bookId out cw
      else addToFavoritesMutation rt bookId out cw)"

section \<open>The other favorite mutations (src/pages/BookDetailsPage.tsx, FavoritesPage)\<close>

text \<open>
  The book details page has its own pair of mutations: their \<open>onSuccess\<close> invalidates
  \<open>['bookFavorite', bookId]\<close> only. Its toggle sends an unauthenticated user to
  \<open>/login\<close>.
\<close>

definition BookDetailsPage_onSuccess :: "int \<Rightarrow> 'a QueryCache \<Rightarrow> 'a QueryCache" where
  "BookDetailsPage_onSuccess bookId cache =
     invalidateQueries [KStr ''bookFavorite'', KNum bookId] cache"

definition BookDetailsPage_handleFavoriteToggle ::
  "Runtime \<Rightarrow> bool \<Rightarrow> int \<Rightarrow> 'p cached option \<Rightarrow> 'r ApiResponse outcome
     \<Rightarrow> 'p cached QueryCache \<times> World \<Rightarrow> 'p cached QueryCache \<times> World" where
  "BookDetailsPage_handleFavoriteToggle rt isAuth bookId favoriteData out cw =
     (if \<not> isAuth then (fst cw, (snd cw)\<lparr>location_href := ''/login''\<rparr>)
      else if isFavorited favoriteData then
        (case apiService_removeFromFavorites rt bookId out (snd cw) of
           (Inr _, w1) \<Rightarrow> (BookDetailsPage_onSuccess bookId (fst cw), w1)
         | (Inl _, w1) \<Rightarrow> (fst cw, w1))
      else
        (case apiService_addToFavorites rt bookId out (snd cw) of
           (Inr _, w1) \<Rightarrow> (BookDetailsPage_onSuccess bookId (fst cw), w1)
         | (Inl _, w1) \<Rightarrow> (fst cw, w1)))"

text \<open>
  The favorites page removes a book after \<open>window.confirm\<close>; the \<open>onSuccess\<close> of its
  mutation invalidates \<open>['userFavorites']\<close> only.
\<close>

definition FavoritesPage_handleRemoveFromFavorites ::
  "Runtime \<Rightarrow> bool \<Rightarrow> int \<Rightarrow> 'r ApiResponse outcome \<Rightarrow> 'a QueryCache \<times> World
     \<Rightarrow> 'a QueryCache \<times> World" where
  "FavoritesPage_handleRemoveFromFavorites rt confirmed bookId out cw =
     (if confirmed then
        (case apiService_removeFromFavorites rt bookId out (snd cw) of
           (Inr _, w1) \<Rightarrow> (invalidateQueries [KStr ''userFavorites''] (fst cw), w1)
         | (Inl _, w1) \<Rightarrow> (fst cw, w1))
      else cw)"

section \<open>Recommendation dashboard (src/components/RecommendationDashboard.tsx)\<close>

text \<open>
  Of a book the dashboard's handlers read the id only; the record keeps the textual
  fields and leaves out the numeric display fields. A recommendation whose \<open>book\<close> is
  missing is what the card's safety check guards against.
\<close>

record Book =
  book_id :: int
  title :: string
  author :: string
  genres :: string

record Recommendation =
  book :: "Book option"
  explanation :: string
  rec_type :: string
  recommendedAt :: string

record RecommendationResponse =
  recommendations :: "Recommendation list"
  resp_userId :: int
  resp_count :: int
  refreshedAt :: string

record AIRecommendationResponse = RecommendationResponse +
  aiAvailable :: bool







text \<open>What the dashboard renders, element by element.\<close>

datatype Element =
    Header
  | HeaderWithTabs int
  | ComponentErrorAlert string
  | LoginPromptAlert
  | AINotAvailableAlert
  | Skeletons nat
  | LoadFailedAlert string
  | EmptyAlert string
  | Cards "Recommendation list"

record DashboardInputs =
  limit :: nat
  showHeader :: bool
  dash_isAuthenticated :: bool
  componentError :: "string option"
  tabValue :: int
  recommendationData :: "RecommendationResponse option"
  dash_isLoading :: bool
  dash_error :: "error option"
  aiRecommendationData :: "AIRecommendationResponse option"
  aiIsLoading :: bool
  aiError :: "error option"

definition getCurrentRecommendations :: "DashboardInputs \<Rightarrow> Recommendation list" where
  "getCurrentRecommendations d =
     (if tabValue d = 0 then
        (case recommendationData d of Some r \<Rightarrow> recommendations r | None \<Rightarrow> [])
      else
        (case aiRecommendationData d of Some r \<Rightarrow> recommendations r | None \<Rightarrow> []))"

definition getCurrentLoading :: "DashboardInputs \<Rightarrow> bool" where
  "getCurrentLoading d = (if tabValue d = 0 then dash_isLoading d else aiIsLoading d)"

definition getCurrentError :: "DashboardInputs \<Rightarrow> error option" where
  "getCurrentError d = (if tabValue d = 0 then dash_error d else aiError d)"

definition no_personalized_message :: string where
  "no_personalized_message =
     ''No personalized recommendations available right now. Try adding some books to your favorites to get personalized suggestions!''"

definition no_ai_message :: string where
  "no_ai_message =
     ''No AI recommendations available. Make sure you have some favorite books and that AI is properly configured.''"

definition tab_content :: "DashboardInputs \<Rightarrow> Element list" where
  "tab_content d =
     (if tabValue d = 1 \<and> (case aiRecommendationData d of Some r \<Rightarrow> aiAvailable r = False | None \<Rightarrow> False)
      then [AINotAvailableAlert] else []) @
     [if getCurrentLoading d then Skeletons (limit d)
      else if getCurrentError d \<noteq> None then
        LoadFailedAlert (''Failed to load '' @ (if tabValue d = 0 then ''personalized'' else ''AI'')
                          @ '' recommendations. Please try again.'')
      else if length (getCurrentRecommendations d) = 0 then
        EmptyAlert (if tabValue d = 0 then no_personalized_message else no_ai_message)
      else Cards (getCurrentRecommendations d)]"

definition dashboard_body :: "DashboardInputs \<Rightarrow> Element list" where
  "dashboard_body d =
     (if \<not> dash_isAuthenticated d then
        (if showHeader d then [Header] else []) @ [LoginPromptAlert]
      else
        (if showHeader d then [HeaderWithTabs (tabValue d)] else []) @ tab_content d)"

text \<open>
  The component: \<open>if (componentError)\<close> first (a non-empty string), then
  \<open>if (!isAuthenticated)\<close>, then the header with the tabs and the tab content.
\<close>

definition RecommendationDashboard :: "DashboardInputs \<Rightarrow> Element list" where
  "RecommendationDashboard d =
     (case componentError d of
        Some msg \<Rightarrow>
          if msg \<noteq> [] then
            (if showHeader d then [Header] else []) @ [ComponentErrorAlert msg]
          else dashboard_body d
      | None \<Rightarrow> dashboard_body d)"

section \<open>Predicates used in the statements\<close>

text \<open>An action whose user payload, if it has one, is not \<open>null\<close>.\<close>

fun payload_present :: "AuthAction \<Rightarrow> bool" where
  "payload_present (LOGIN_SUCCESS p t) = (p \<noteq> None)"
| "payload_present (SET_USER p) = (p \<noteq> None)"
| "payload_present a = True"

section \<open>Sample values\<close>

definition fresh_world :: World where
  "fresh_world =
     \<lparr>localStorage = Map.empty, defaults_headers_common = Map.empty, location_href = ''/'',
      console = [], sent = [], state = initialState\<rparr>"

definition sample_user :: User where
  "sample_user =
     \<lparr>id' = 1, name = ''Test User'', email = ''t@e.com'', bio = None, avatarUrl = None,
      emailVerified = True, active = True, createdAt = ''2024-01-01T00:00:00.000Z'',
      reviewCount = 0, favoriteBooksCount = 0\<rparr>"

text \<open>
  The runtime as far as the samples use it: \<open>JSON.stringify\<close> on the sample user,
  \<open>JSON.parse\<close> on that text and on the text \<open>null\<close> (it throws on the other stored
  string of the samples), and the exponent form of \<open>1e21\<close>.
\<close>

definition sample_user_json :: string where
  "sample_user_json =
     ''{\"id\":1,\"name\":\"Test User\",\"email\":\"t@e.com\",\"emailVerified\":true,\"active\":true,\"createdAt\":\"2024-01-01T00:00:00.000Z\",\"reviewCount\":0,\"favoriteBooksCount\":0}''"

definition sample_runtime :: Runtime where
  "sample_runtime =
     \<lparr>now_iso = ''2024-01-01T00:00:00.000Z'',
      JSON_stringify = (\<lambda>u. if u = sample_user then sample_user_json else ''{}''),
      JSON_parse = (\<lambda>s. if s = sample_user_json then Inr (Some sample_user)
                         else if s = ''null'' then Inr None
                         else Inl SyntaxError),
      number_exponent_form = (\<lambda>i. ''1e+21'')\<rparr>"

definition sample_jwt :: JwtResponse where
  "sample_jwt =
     \<lparr>jwt_token = ''new-jwt-token'', jwt_type = ''Bearer'', jwt_userId = 1,
      jwt_name = ''Test User'', jwt_email = ''t@e.com'', jwt_expiresAt = ''2024-01-02''\<rparr>"

definition token_only_world :: World where
  "token_only_world = fresh_world\<lparr>localStorage := [''token'' \<mapsto> ''stale-token'']\<rparr>"

definition persisted_world :: World where
  "persisted_world =
     fresh_world\<lparr>localStorage := [''token'' \<mapsto> ''mock-jwt-token'', ''user'' \<mapsto> sample_user_json]\<rparr>"

definition corrupt_world :: World where
  "corrupt_world =
     fresh_world\<lparr>localStorage := [''token'' \<mapsto> ''mock-jwt-token'', ''user'' \<mapsto> ''not json'']\<rparr>"

definition null_user_world :: World where
  "null_user_world =
     fresh_world\<lparr>localStorage := [''token'' \<mapsto> ''mock-jwt-token'', ''user'' \<mapsto> ''null'']\<rparr>"

definition rotated_world :: World where
  "rotated_world =
     fresh_world\<lparr>localStorage := [''token'' \<mapsto> ''rotated-token''],
                 defaults_headers_common := [''Authorization'' \<mapsto> ''Bearer first-token'']\<rparr>"

definition sample_validation :: "bool \<Rightarrow> TokenValidation" where
  "sample_validation b =
     \<lparr>valid = b, val_userId = 1, val_email = ''t@e.com'', val_name = ''Test User''\<rparr>"

definition ok_response :: "unit ApiResponse" where
  "ok_response = \<lparr>success = True, message = ''OK'', data = None\<rparr>"

definition sample_passwords :: PasswordChangeData where
  "sample_passwords =
     \<lparr>currentPassword = ''old-pw'', newPassword = ''new-pw'', confirmPassword = ''new-pw''\<rparr>"



definition favorited_cache :: "unit cached QueryCache" where
  "favorited_cache =
     [[KStr ''bookFavorite'', KNum 1] \<mapsto>
        \<lparr>entry_data = FavoriteStatusData \<lparr>favorited = True, fav_bookId = 1\<rparr>,
         updatedAt = 0, isInvalidated = False\<rparr>]"

definition not_favorited_cache :: "unit cached QueryCache" where
  "not_favorited_cache =
     [[KStr ''bookFavorite'', KNum 1] \<mapsto>
        \<lparr>entry_data = FavoriteStatusData \<lparr>favorited = False, fav_bookId = 1\<rparr>,
         updatedAt = 0, isInvalidated = False\<rparr>]"

definition ai_inputs :: "bool \<Rightarrow> DashboardInputs" where
  "ai_inputs available =
     \<lparr>limit = 3, showHeader = True, dash_isAuthenticated = True, componentError = None,
      tabValue = 1, recommendationData = None, dash_isLoading = False, dash_error = None,
      aiRecommendationData =
        Some \<lparr>recommendations = [], resp_userId = 1, resp_count = 0,
              refreshedAt = ''2024-01-01T00:00:00Z'', aiAvailable = available\<rparr>,
      aiIsLoading = False, aiError = None\<rparr>"


section \<open>Facts about the transport\<close>

lemma str_includes_iff_sublist: "str_includes s sub \<longleftrightarrow> sublist sub s"
  by (induction s) (auto simp: sublist_Cons_right)

lemma request_line_requestInterceptor [simp]:
  "request_line (requestInterceptor w c) = request_line c"
  by (simp add: request_line_def requestInterceptor_def split: option.splits)

lemma sent_responseRejected [simp]: "sent (snd (responseRejected e w)) = sent w"
  by (simp add: responseRejected_def removeItem_def Let_def)

text \<open>Every call of the instance hands exactly one request to the network.\<close>

lemma request_sent:
  "map request_line (sent (snd (request m u d out w))) = map request_line (sent w) @ [(m, u, d)]"
proof (cases out)
  case (Inl f)
  obtain st msg where f: "f = (st, msg)" by (cases f)
  show ?thesis
    unfolding request_def Let_def Inl f
    by (simp add: split_beta) (simp add: request_line_def)
next
  case (Inr r)
  show ?thesis
    unfolding request_def Let_def Inr
    by simp (simp add: request_line_def)
qed

section \<open>Numbers in request paths\<close>

lemma digit_value_digit_char: "d < 10 \<Longrightarrow> digit_value (digit_char d) = d"
proof -
  assume "d < 10"
  then have "d \<in> {0, 1, 2, 3, 4, 5, 6, 7, 8, 9}" by auto
  then show ?thesis
    by (auto simp: digit_value_def digit_char_def)
qed


lemma digits_value_snoc: "digits_value (cs @ [c]) = 10 * digits_value cs + digit_value c"
  by (simp add: digits_value_def)

lemma digits_value_nat_digits: "digits_value (nat_digits n) = n"
proof (induction n rule: nat_digits.induct)
  case (1 n)
  show ?case
  proof (cases "n < 10")
    case True
    then show ?thesis
      by (subst nat_digits.simps) (simp add: digits_value_def digit_value_digit_char)
  next
    case False
    then have "digits_value (nat_digits (n div 10)) = n div 10" using 1 by simp
    with False show ?thesis
      by (subst nat_digits.simps) (simp add: digits_value_snoc digit_value_digit_char)
  qed
qed





lemma digits_value_js_number:
  "0 \<le> i \<Longrightarrow> i < 10 ^ 21 \<Longrightarrow> digits_value (js_number rt i) = nat i"
  by (simp add: js_number_def int_decimal_def digits_value_nat_digits)

section \<open>Login\<close>

text \<open>
  C1. Whenever the login request succeeds with response \<open>r\<close>, \<open>login\<close> resolves and
  leaves the store authenticated and not loading, with the user synthesized from
  \<open>r\<close>'s userId, name and email and the placeholder values; \<open>localStorage\<close> holds
  \<open>r\<close>'s token under \<open>token\<close> and the serialized synthesized user under \<open>user\<close>, and
  the client's default \<open>Authorization\<close> header is \<open>Bearer\<close> followed by that token.
\<close>

theorem login_success_authenticates:
  "(let u = \<lparr>id' = jwt_userId r, name = jwt_name r, email = jwt_email r, bio = None,
              avatarUrl = None, emailVerified = True, active = True,
              createdAt = now_iso rt, reviewCount = 0, favoriteBooksCount = 0\<rparr>;
        w' = snd (login rt em pw (Inr r) w)
    in fst (login rt em pw (Inr r) w) = Inr ()
       \<and> state w' = \<lparr>user = Some u, token = Some (jwt_token r), loading = False,
                      isAuthenticated = True\<rparr>
       \<and> reviewCount u = 0 \<and> favoriteBooksCount u = 0 \<and> emailVerified u
       \<and> getItem ''token'' w' = Some (jwt_token r)
       \<and> getItem ''user'' w' = Some (JSON_stringify rt u)
       \<and> defaults_headers_common w' ''Authorization'' = Some (''Bearer '' @ jwt_token r))"
  by (simp add: login_def apiService_login_def request_def Let_def dispatch_def setItem_def
      getItem_def setAuthToken_def)

text \<open>The spec's example: the response \<open>{token: "new-jwt-token", userId: 1, ...}\<close>.\<close>

theorem login_success_witness:
  "(let w' = snd (login sample_runtime ''t@e.com'' ''password'' (Inr sample_jwt) fresh_world)
    in fst (login sample_runtime ''t@e.com'' ''password'' (Inr sample_jwt) fresh_world) = Inr ()
       \<and> user (state w') = Some sample_user \<and> isAuthenticated (state w')
       \<and> getItem ''token'' w' = Some ''new-jwt-token''
       \<and> getItem ''user'' w' = Some sample_user_json
       \<and> defaults_headers_common w' ''Authorization'' = Some ''Bearer new-jwt-token'')"
  using login_success_authenticates[where r = sample_jwt and rt = sample_runtime
      and em = "''t@e.com''" and pw = "''password''" and w = fresh_world]
  by (simp add: Let_def sample_jwt_def sample_runtime_def sample_user_def)

section \<open>Startup\<close>

text \<open>
  C2, as the code has it. On startup, when both entries are persisted and non-empty the
  validate-token request is sent. On a valid result, when \<open>JSON.parse\<close> returns a value
  for the persisted user string, the store becomes authenticated with that value as its
  user (the persisted user object, whatever the validate response carries; \<open>null\<close> when
  the entry holds the text \<open>null\<close>) and with the persisted token, and the entries stay.
  On an invalid result, on a failed validation call, and when \<open>JSON.parse\<close> throws, both
  entries are removed and the store becomes unauthenticated, not loading. When an entry
  is absent or empty, no request is sent, \<open>localStorage\<close> is left as it is, and the
  store, starting from its initial state, is unauthenticated and not loading.
\<close>

theorem initializeAuth_startup:
  "(getItem ''token'' w = Some tok \<and> tok \<noteq> [] \<and> getItem ''user'' w = Some userStr \<and> userStr \<noteq> []
      \<longrightarrow> map request_line (sent (initializeAuth rt out w))
            = map request_line (sent w) @ [(GET, ''/auth/validate'', None)])
   \<and> (getItem ''token'' w = Some tok \<and> tok \<noteq> [] \<and> getItem ''user'' w = Some userStr \<and> userStr \<noteq> []
        \<and> out = Inr v \<and> valid v \<and> JSON_parse rt userStr = Inr parsed
      \<longrightarrow> state (initializeAuth rt out w)
            = \<lparr>user = parsed, token = Some tok, loading = False, isAuthenticated = True\<rparr>
          \<and> localStorage (initializeAuth rt out w) = localStorage w)
   \<and> (getItem ''token'' w = Some tok \<and> tok \<noteq> [] \<and> getItem ''user'' w = Some userStr \<and> userStr \<noteq> []
        \<and> ((\<exists>v. out = Inr v \<and> \<not> valid v) \<or> (\<exists>f. out = Inl f)
            \<or> (\<exists>v e. out = Inr v \<and> valid v \<and> JSON_parse rt userStr = Inl e))
      \<longrightarrow> getItem ''token'' (initializeAuth rt out w) = None
          \<and> getItem ''user'' (initializeAuth rt out w) = None
          \<and> state (initializeAuth rt out w)
            = \<lparr>user = None, token = None, loading = False, isAuthenticated = False\<rparr>)
   \<and> (\<not> (truthy (getItem ''token'' w) \<and> truthy (getItem ''user'' w)) \<and> state w = initialState
      \<longrightarrow> sent (initializeAuth rt out w) = sent w
          \<and> localStorage (initializeAuth rt out w) = localStorage w
          \<and> state (initializeAuth rt out w)
            = \<lparr>user = None, token = None, loading = False, isAuthenticated = False\<rparr>)"
proof (intro conjI impI)
  assume "getItem ''token'' w = Some tok \<and> tok \<noteq> [] \<and> getItem ''user'' w = Some userStr \<and> userStr \<noteq> []"
  then have "initializeAuth rt out w
      = (case fst (apiService_validateToken out w) of
           Inr validation \<Rightarrow>
             if valid validation then
               (case JSON_parse rt userStr of
                  Inr parsed \<Rightarrow> dispatch (LOGIN_SUCCESS parsed tok)
                                 (setAuthToken tok (snd (apiService_validateToken out w)))
                | Inl e \<Rightarrow> initializeAuth_catch e (snd (apiService_validateToken out w)))
             else dispatch LOGIN_FAILURE
                    (removeItem ''user'' (removeItem ''token'' (snd (apiService_validateToken out w))))
         | Inl e \<Rightarrow> initializeAuth_catch e (snd (apiService_validateToken out w)))"
    by (simp add: initializeAuth_def split_beta)
  then show "map request_line (sent (initializeAuth rt out w))
      = map request_line (sent w) @ [(GET, ''/auth/validate'', None)]"
    using request_sent[of GET "''/auth/validate''" None out w]
    by (simp add: apiService_validateToken_def initializeAuth_catch_def dispatch_def removeItem_def
        setAuthToken_def console_error_def
        split: sum.splits)
qed (auto simp: initializeAuth_def initializeAuth_catch_def apiService_validateToken_def
      request_def requestInterceptor_def responseRejected_def error_status_def error_url_def
      Let_def getItem_def removeItem_def console_error_def dispatch_def setAuthToken_def
      truthy_def initialState_def
      split: sum.splits option.splits prod.splits)

theorem initializeAuth_startup_witness:
  "state (initializeAuth sample_runtime (Inr (sample_validation True)) persisted_world)
     = \<lparr>user = Some sample_user, token = Some ''mock-jwt-token'', loading = False,
        isAuthenticated = True\<rparr>
   \<and> map request_line (sent (initializeAuth sample_runtime (Inr (sample_validation True)) persisted_world))
     = [(GET, ''/auth/validate'', None)]
   \<and> state (initializeAuth sample_runtime (Inr (sample_validation True)) null_user_world)
     = \<lparr>user = None, token = Some ''mock-jwt-token'', loading = False, isAuthenticated = True\<rparr>
   \<and> getItem ''token'' (initializeAuth sample_runtime (Inr (sample_validation False)) persisted_world) = None
   \<and> getItem ''user'' (initializeAuth sample_runtime (Inr (sample_validation False)) persisted_world) = None
   \<and> isAuthenticated (state (initializeAuth sample_runtime (Inr (sample_validation False)) persisted_world)) = False
   \<and> getItem ''token'' (initializeAuth sample_runtime (Inr (sample_validation True)) corrupt_world) = None
   \<and> localStorage (initializeAuth sample_runtime (Inl (None, ''Network Error'')) token_only_world)
     = localStorage token_only_world
   \<and> state (initializeAuth sample_runtime (Inl (None, ''Network Error'')) token_only_world)
     = \<lparr>user = None, token = None, loading = False, isAuthenticated = False\<rparr>"
  using
    initializeAuth_startup[where w = persisted_world and rt = sample_runtime
      and out = "Inr (sample_validation True)" and v = "sample_validation True"
      and tok = "''mock-jwt-token''" and userStr = sample_user_json and parsed = "Some sample_user"]
    initializeAuth_startup[where w = null_user_world and rt = sample_runtime
      and out = "Inr (sample_validation True)" and v = "sample_validation True"
      and tok = "''mock-jwt-token''" and userStr = "''null''" and parsed = None]
    initializeAuth_startup[where w = persisted_world and rt = sample_runtime
      and out = "Inr (sample_validation False)" and tok = "''mock-jwt-token''"
      and userStr = sample_user_json and v = "sample_validation False" and parsed = None]
    initializeAuth_startup[where w = corrupt_world and rt = sample_runtime
      and out = "Inr (sample_validation True)" and tok = "''mock-jwt-token''"
      and userStr = "''not json''" and v = "sample_validation True" and parsed = None]
    initializeAuth_startup[where w = token_only_world and rt = sample_runtime
      and out = "Inl (None, ''Network Error'')" and tok = "''stale-token''" and userStr = "[]"
      and v = "sample_validation True" and parsed = None]
  by (simp add: fresh_world_def token_only_world_def persisted_world_def corrupt_world_def
      null_user_world_def sample_runtime_def sample_user_json_def sample_validation_def
      getItem_def truthy_def)

text \<open>
  C2 as stated fails where it says the persisted state is cleared when an entry is
  absent: with a token and no user persisted, startup leaves the token in place.
\<close>

theorem initializeAuth_absent_keeps_token:
  "getItem ''user'' token_only_world = None
   \<and> getItem ''token'' (initializeAuth sample_runtime (Inl (None, ''Network Error'')) token_only_world)
       = Some ''stale-token''"
  by (simp add: initializeAuth_def getItem_def dispatch_def token_only_world_def fresh_world_def)

section \<open>Logout\<close>

text \<open>
  C3. Whatever the outcome of the logout request, \<open>logout\<close> resolves (it never rejects),
  both \<open>localStorage\<close> entries are gone, the default \<open>Authorization\<close> header is cleared,
  and the store is unauthenticated and not loading; a failed request adds exactly one
  \<open>Logout error:\<close> line to the console.
\<close>

theorem logout_always_clears:
  "(let w' = snd (logout out w)
    in fst (logout out w) = Inr ()
       \<and> getItem ''token'' w' = None \<and> getItem ''user'' w' = None
       \<and> defaults_headers_common w' ''Authorization'' = None
       \<and> state w' = \<lparr>user = None, token = None, loading = False, isAuthenticated = False\<rparr>
       \<and> console w' = console w @
            (case out of
               Inl (st, msg) \<Rightarrow> [(''Logout error:'', AxiosError st (Some ''/auth/logout'') msg)]
             | Inr _ \<Rightarrow> []))"
  by (cases out)
     (auto simp: logout_def apiService_logout_def request_def responseRejected_def Let_def
        dispatch_def removeItem_def getItem_def clearAuthToken_def console_error_def
        split: prod.splits)

theorem logout_always_clears_witness:
  "(let w' = snd (logout (Inl (None, ''Network error'')) rotated_world)
    in fst (logout (Inl (None, ''Network error'')) rotated_world) = Inr ()
       \<and> getItem ''token'' w' = None
       \<and> defaults_headers_common w' ''Authorization'' = None
       \<and> isAuthenticated (state w') = False
       \<and> console w' = [(''Logout error:'', AxiosError None (Some ''/auth/logout'') ''Network error'')])"
  using logout_always_clears[where out = "Inl (None, ''Network error'')" and w = rotated_world]
  by (simp add: Let_def rotated_world_def fresh_world_def)

section \<open>The 401 interceptor\<close>

text \<open>
  C4. The rejection handler of the response interceptor always rejects with the error it
  was given, and every failed call of the instance rejects with the transport's error.
  For a 401 whose request url contains \<open>/auth/\<close> or \<open>/profile\<close> the handler removes
  both \<open>localStorage\<close> entries and sends the browser to \<open>/login\<close>; for a 401 on any
  other url, and for any other error, it changes nothing. The same holds of a call of
  the instance as a whole: a 401 answer to a request on such a url leaves both entries
  removed and the browser at \<open>/login\<close>; any other failure, and any success, leaves
  \<open>localStorage\<close> and the location as they were.
\<close>

theorem responseInterceptor_401:
  "fst (responseRejected e w) = e
   \<and> fst (request m u d (Inl (st, msg) :: 'a outcome) w) = Inl (AxiosError st (Some u) msg)
   \<and> (error_status e = Some 401
        \<and> (sublist ''/auth/'' (error_url e) \<or> sublist ''/profile'' (error_url e))
      \<longrightarrow> getItem ''token'' (snd (responseRejected e w)) = None
          \<and> getItem ''user'' (snd (responseRejected e w)) = None
          \<and> location_href (snd (responseRejected e w)) = ''/login'')
   \<and> (error_status e = Some 401
        \<and> \<not> sublist ''/auth/'' (error_url e) \<and> \<not> sublist ''/profile'' (error_url e)
      \<longrightarrow> snd (responseRejected e w) = w)
   \<and> (error_status e \<noteq> Some 401 \<longrightarrow> snd (responseRejected e w) = w)
   \<and> (st = Some 401 \<and> (sublist ''/auth/'' u \<or> sublist ''/profile'' u)
      \<longrightarrow> getItem ''token'' (snd (request m u d (Inl (st, msg) :: 'a outcome) w)) = None
          \<and> getItem ''user'' (snd (request m u d (Inl (st, msg) :: 'a outcome) w)) = None
          \<and> location_href (snd (request m u d (Inl (st, msg) :: 'a outcome) w)) = ''/login'')
   \<and> (\<not> (st = Some 401 \<and> (sublist ''/auth/'' u \<or> sublist ''/profile'' u))
      \<longrightarrow> localStorage (snd (request m u d (Inl (st, msg) :: 'a outcome) w)) = localStorage w
          \<and> location_href (snd (request m u d (Inl (st, msg) :: 'a outcome) w)) = location_href w)
   \<and> localStorage (snd (request m u d (Inr r :: 'a outcome) w)) = localStorage w
   \<and> location_href (snd (request m u d (Inr r :: 'a outcome) w)) = location_href w"
  by (auto simp: responseRejected_def request_def Let_def removeItem_def getItem_def
        error_status_def error_url_def str_includes_iff_sublist split: prod.splits)

theorem responseInterceptor_401_witness:
  "getItem ''token'' (snd (responseRejected (AxiosError (Some 401) (Some ''/auth/profile'') ''Unauthorized'')
                             persisted_world)) = None
   \<and> getItem ''user'' (snd (responseRejected (AxiosError (Some 401) (Some ''/auth/profile'') ''Unauthorized'')
                              persisted_world)) = None
   \<and> location_href (snd (responseRejected (AxiosError (Some 401) (Some ''/auth/profile'') ''Unauthorized'')
                             persisted_world)) = ''/login''
   \<and> snd (responseRejected (AxiosError (Some 401) (Some ''/books/1/favorite'') ''Unauthorized'')
            persisted_world) = persisted_world
   \<and> snd (responseRejected (AxiosError (Some 500) (Some ''/auth/profile'') ''Server Error'')
            persisted_world) = persisted_world
   \<and> fst (responseRejected (AxiosError (Some 401) (Some ''/books/1/favorite'') ''Unauthorized'')
            persisted_world) = AxiosError (Some 401) (Some ''/books/1/favorite'') ''Unauthorized''
   \<and> getItem ''token'' (snd (request GET ''/auth/profile'' None
                                (Inl (Some 401, ''Unauthorized'') :: unit outcome) persisted_world)) = None
   \<and> getItem ''user'' (snd (request GET ''/auth/profile'' None
                               (Inl (Some 401, ''Unauthorized'') :: unit outcome) persisted_world)) = None
   \<and> location_href (snd (request GET ''/auth/profile'' None
                            (Inl (Some 401, ''Unauthorized'') :: unit outcome) persisted_world)) = ''/login''
   \<and> getItem ''token'' (snd (request GET ''/books/1/favorite'' None
                                (Inl (Some 401, ''Unauthorized'') :: unit outcome) persisted_world))
     = Some ''mock-jwt-token''
   \<and> location_href (snd (request GET ''/books/1/favorite'' None
                            (Inl (Some 401, ''Unauthorized'') :: unit outcome) persisted_world)) = ''/''"
proof -
  note sensitive = responseInterceptor_401[where e = "AxiosError (Some 401) (Some ''/auth/profile'') ''Unauthorized''"
      and w = persisted_world and m = GET and u = "''/auth/profile''" and d = None
      and st = "Some 401" and msg = "''Unauthorized''" and r = "()"]
  note other = responseInterceptor_401[where e = "AxiosError (Some 401) (Some ''/books/1/favorite'') ''Unauthorized''"
      and w = persisted_world and m = GET and u = "''/books/1/favorite''" and d = None
      and st = "Some 401" and msg = "''Unauthorized''" and r = "()"]
  note server = responseInterceptor_401[where e = "AxiosError (Some 500) (Some ''/auth/profile'') ''Server Error''"
      and w = persisted_world and m = GET and u = "''/books''" and d = None and st = None
      and msg = "''Network Error''" and r = "()"]
  have stored: "localStorage persisted_world ''token'' = Some ''mock-jwt-token''"
    "location_href persisted_world = ''/''"
    by (simp_all add: persisted_world_def fresh_world_def)
  show ?thesis
    using sensitive other server
    by (simp add: error_status_def error_url_def getItem_def stored
        flip: str_includes_iff_sublist)
qed

section \<open>The reducer's invariant\<close>

lemma authenticated_has_user_step:
  "payload_present a \<Longrightarrow> (isAuthenticated s \<longrightarrow> user s \<noteq> None) \<Longrightarrow>
   isAuthenticated (authReducer s a) \<longrightarrow> user (authReducer s a) \<noteq> None"
  by (cases a) auto

lemma authenticated_has_user_foldl:
  "list_all payload_present acts \<Longrightarrow> (isAuthenticated s \<longrightarrow> user s \<noteq> None) \<Longrightarrow>
   isAuthenticated (foldl authReducer s acts) \<longrightarrow> user (foldl authReducer s acts) \<noteq> None"
proof (induction acts arbitrary: s)
  case Nil
  then show ?case by simp
next
  case (Cons a acts)
  from Cons.prems have a: "payload_present a" and rest: "list_all payload_present acts"
    by simp_all
  have "isAuthenticated (authReducer s a) \<longrightarrow> user (authReducer s a) \<noteq> None"
    using a Cons.prems(2) by (rule authenticated_has_user_step)
  then show ?case using Cons.IH[OF rest] by simp
qed

text \<open>
  C5, as the code has it. The two actions that set \<open>isAuthenticated\<close> set
  \<open>loading = false\<close> and store the action's user payload in the same update:
  \<open>LOGIN_SUCCESS\<close> also sets the token, \<open>SET_USER\<close> leaves the token as it was. No
  other action turns \<open>isAuthenticated\<close> on, or changes the user while it stays on. From
  the initial state, a sequence of actions whose user payloads are all non-null reaches
  no state that is authenticated without a user.
\<close>

theorem authReducer_authenticated_invariant:
  "authReducer s (LOGIN_SUCCESS p t)
     = \<lparr>user = p, token = Some t, loading = False, isAuthenticated = True\<rparr>
   \<and> authReducer s (SET_USER p)
     = \<lparr>user = p, token = token s, loading = False, isAuthenticated = True\<rparr>
   \<and> ((\<forall>p t. a \<noteq> LOGIN_SUCCESS p t) \<and> (\<forall>p. a \<noteq> SET_USER p) \<and> isAuthenticated (authReducer s a)
        \<longrightarrow> isAuthenticated s \<and> user (authReducer s a) = user s)
   \<and> (list_all payload_present acts \<and> isAuthenticated (foldl authReducer initialState acts)
        \<longrightarrow> user (foldl authReducer initialState acts) \<noteq> None)"
proof (intro conjI)
  show "(\<forall>p t. a \<noteq> LOGIN_SUCCESS p t) \<and> (\<forall>p. a \<noteq> SET_USER p) \<and> isAuthenticated (authReducer s a)
        \<longrightarrow> isAuthenticated s \<and> user (authReducer s a) = user s"
    by (cases a) auto
  show "list_all payload_present acts \<and> isAuthenticated (foldl authReducer initialState acts)
        \<longrightarrow> user (foldl authReducer initialState acts) \<noteq> None"
    using authenticated_has_user_foldl[of acts initialState] by (simp add: initialState_def)
qed simp_all

theorem authReducer_authenticated_invariant_witness:
  "authReducer initialState (LOGIN_SUCCESS (Some sample_user) ''new-jwt-token'')
     = \<lparr>user = Some sample_user, token = Some ''new-jwt-token'', loading = False,
        isAuthenticated = True\<rparr>
   \<and> isAuthenticated (foldl authReducer initialState
        [SET_LOADING True, LOGIN_SUCCESS (Some sample_user) ''new-jwt-token'', SET_LOADING True])
   \<and> user (foldl authReducer initialState
        [SET_LOADING True, LOGIN_SUCCESS (Some sample_user) ''new-jwt-token'', SET_LOADING True]) \<noteq> None
   \<and> isAuthenticated (authReducer
        (authReducer initialState (LOGIN_SUCCESS (Some sample_user) ''new-jwt-token''))
        (SET_LOADING True))
   \<and> user (authReducer
        (authReducer initialState (LOGIN_SUCCESS (Some sample_user) ''new-jwt-token''))
        (SET_LOADING True)) = Some sample_user"
  using
    authReducer_authenticated_invariant[where s = initialState and p = "Some sample_user"
      and t = "''new-jwt-token''" and a = "SET_LOADING True"
      and acts = "[SET_LOADING True, LOGIN_SUCCESS (Some sample_user) ''new-jwt-token'',
                   SET_LOADING True]"]
    authReducer_authenticated_invariant[where
      s = "authReducer initialState (LOGIN_SUCCESS (Some sample_user) ''new-jwt-token'')"
      and p = "Some sample_user" and t = "''new-jwt-token''" and a = "SET_LOADING True"
      and acts = "[]"]
  by (simp add: initialState_def)

text \<open>
  C5 as stated fails twice. \<open>SET_USER\<close> on the initial state makes the store
  authenticated with a null token; and \<open>LOGIN_SUCCESS\<close> with a null user payload makes it
  authenticated with a null user.
\<close>

theorem authenticated_with_null_token_or_user:
  "isAuthenticated (authReducer initialState (SET_USER (Some sample_user)))
   \<and> token (authReducer initialState (SET_USER (Some sample_user))) = None
   \<and> isAuthenticated (authReducer initialState (LOGIN_SUCCESS None ''mock-jwt-token''))
   \<and> user (authReducer initialState (LOGIN_SUCCESS None ''mock-jwt-token'')) = None"
  by (simp add: initialState_def)

text \<open>
  The provider reaches both states: a profile update that the backend accepts before
  any login dispatches \<open>SET_USER\<close> on a store that holds no token; a startup with the
  text \<open>null\<close> persisted as the user dispatches \<open>LOGIN_SUCCESS\<close> with a null user; and
  a profile refresh whose response body is \<open>null\<close> dispatches \<open>SET_USER\<close> with it.
\<close>

lemma updateProfile_before_login:
  "(let w' = snd (updateProfile sample_runtime
                    \<lparr>profile_name = Some ''Test User'', profile_bio = None, profile_avatarUrl = None\<rparr>
                    (Inr \<lparr>success = True, message = ''Profile updated'', data = Some sample_user\<rparr>)
                    fresh_world)
    in isAuthenticated (state w') \<and> token (state w') = None \<and> user (state w') = Some sample_user)"
  by (simp add: updateProfile_def apiService_updateUserProfile_def request_def Let_def
      dispatch_def setItem_def
      fresh_world_def initialState_def)

lemma initializeAuth_null_user:
  "isAuthenticated (state (initializeAuth sample_runtime (Inr (sample_validation True)) null_user_world))
   \<and> user (state (initializeAuth sample_runtime (Inr (sample_validation True)) null_user_world)) = None
   \<and> getItem ''user'' (initializeAuth sample_runtime (Inr (sample_validation True)) null_user_world)
     = Some ''null''"
  by (simp add: initializeAuth_def apiService_validateToken_def request_def Let_def getItem_def
      dispatch_def setAuthToken_def null_user_world_def fresh_world_def sample_runtime_def
      sample_user_json_def sample_validation_def)

lemma refreshProfile_null_body:
  "(let w = snd (login sample_runtime ''t@e.com'' ''password'' (Inr sample_jwt) fresh_world);
        w' = refreshProfile sample_runtime (Inr None) w
    in isAuthenticated (state w) \<and> user (state w) = Some sample_user
       \<and> isAuthenticated (state w') \<and> user (state w') = None)"
  by (simp add: refreshProfile_def apiService_getUserProfile_def login_def apiService_login_def
      request_def Let_def dispatch_def setItem_def setAuthToken_def sample_runtime_def
      sample_jwt_def sample_user_def fresh_world_def initialState_def)

section \<open>The bearer header of outgoing requests\<close>

text \<open>
  C7, as the code has it. While a non-empty token is persisted, the request that any
  call of the instance hands to the network carries \<open>Authorization: Bearer\<close> followed by
  the token that \<open>localStorage\<close> holds at that moment, whatever the instance's default
  header says. While no token (or an empty one) is persisted, the interceptor adds
  nothing: the request goes out with the instance's default headers.
\<close>

theorem request_carries_persisted_token:
  "(getItem ''token'' w = Some tok \<and> tok \<noteq> []
      \<longrightarrow> req_headers (last (sent (snd (request m u d out w)))) ''Authorization''
            = Some (''Bearer '' @ tok))
   \<and> (\<not> truthy (getItem ''token'' w)
      \<longrightarrow> req_headers (last (sent (snd (request m u d out w)))) = base_headers w)"
  by (cases out)
     (auto simp: request_def requestInterceptor_def responseRejected_def removeItem_def Let_def
        truthy_def split: prod.splits option.splits)

text \<open>
  A rotated token: the default header still holds the first token, \<open>localStorage\<close> the
  rotated one, and the request carries the rotated one.
\<close>

theorem request_carries_persisted_token_witness:
  "req_headers (last (sent (snd (request GET ''/books'' None (Inr ok_response) rotated_world))))
       ''Authorization'' = Some ''Bearer rotated-token''
   \<and> req_headers (last (sent (snd (request GET ''/books'' None (Inr ok_response) fresh_world))))
       ''Authorization'' = None"
  using
    request_carries_persisted_token[where w = rotated_world and tok = "''rotated-token''"
      and m = GET and u = "''/books''" and d = None and out = "Inr ok_response"]
    request_carries_persisted_token[where w = fresh_world
      and m = GET and u = "''/books''" and d = None and out = "Inr ok_response"]
  by (simp add: rotated_world_def fresh_world_def getItem_def truthy_def base_headers_def)

text \<open>
  C7 as stated fails for a request made while nothing is persisted: the login request
  of a fresh page goes out without an \<open>Authorization\<close> header.
\<close>

theorem request_without_token_has_no_header:
  "map (\<lambda>q. req_headers q ''Authorization'')
     (sent (snd (apiService_login
                   \<lparr>login_email = ''t@e.com'', login_password = ''password'', rememberMe = None\<rparr>
                   (Inr sample_jwt) fresh_world))) = [None]"
  by (simp add: apiService_login_def request_def requestInterceptor_def getItem_def base_headers_def
      fresh_world_def Let_def)

section \<open>Favorite toggle and the status cache\<close>

lemma FavoriteButton_onSuccess_entry:
  "FavoriteButton_onSuccess bookId c k =
     (if prefix [KStr ''bookFavorite'', KNum bookId] k \<or> prefix [KStr ''userFavorites''] k
      then map_option (\<lambda>e. e\<lparr>isInvalidated := True\<rparr>) (c k) else c k)"
  by (cases "c k") (auto simp: FavoriteButton_onSuccess_def invalidateQueries_def)

lemma toggle_cache:
  "fst (handleFavoriteToggle rt True bookId fd (Inr r) (c, w)) = FavoriteButton_onSuccess bookId c"
  by (simp add: handleFavoriteToggle_def addToFavoritesMutation_def removeFromFavoritesMutation_def
      apiService_addToFavorites_def apiService_removeFromFavorites_def request_def Let_def)

lemma toggle_sent:
  "map request_line (sent (snd (handleFavoriteToggle rt True bookId fd (Inr r) (c, w))))
     = map request_line (sent w) @
       [(if isFavorited fd then DELETE else POST, ''/books/'' @ js_number rt bookId @ ''/favorite'', None)]"
  by (simp add: handleFavoriteToggle_def addToFavoritesMutation_def removeFromFavoritesMutation_def
      apiService_addToFavorites_def apiService_removeFromFavorites_def request_def Let_def)
     (simp add: request_line_def)

text \<open>An enabled status read of an invalidated (or missing) entry fetches.\<close>

lemma query_refetches_invalidated:
  assumes "bookId \<noteq> 0"
    and "\<forall>e. c' [KStr ''bookFavorite'', KNum bookId] = Some e \<longrightarrow> isInvalidated e"
  shows "FavoriteButton_query rt True bookId (Inr st) now (c', w')
     = (\<lparr>q_data = Some (FavoriteStatusData st), q_error = None\<rparr>,
        c'([KStr ''bookFavorite'', KNum bookId]
             \<mapsto> \<lparr>entry_data = FavoriteStatusData st, updatedAt = now, isInvalidated = False\<rparr>),
        snd (apiService_checkFavoriteStatus rt bookId (Inr st) w'))"
  using assms
  by (auto simp: FavoriteButton_query_def useQuery_def Let_def is_fresh_def
        apiService_checkFavoriteStatus_def request_def split: option.splits)

text \<open>
  C6, as the code has it. For every book id, a successful favorite toggle of the
  \<open>FavoriteButton\<close> component by an authenticated user (add or remove, as the current
  status selects) marks every cached entry under \<open>['bookFavorite', bookId]\<close> and under
  \<open>['userFavorites']\<close> invalidated, leaving all other entries alone. When the book id is
  not 0, the button's next status read, at any time, fetches
  \<open>GET /books/{id}/favorite\<close>, returns what the backend answers and stores it as a
  fresh entry.
\<close>

theorem favorite_toggle_invalidates:
  "(let cw' = handleFavoriteToggle rt True bookId fd (Inr r) (c, w);
        key = [KStr ''bookFavorite'', KNum bookId];
        q = FavoriteButton_query rt True bookId (Inr st) now cw'
    in (\<forall>k. fst cw' k =
          (if prefix key k \<or> prefix [KStr ''userFavorites''] k
           then map_option (\<lambda>e. e\<lparr>isInvalidated := True\<rparr>) (c k) else c k))
       \<and> (bookId \<noteq> 0 \<longrightarrow>
            fst q = \<lparr>q_data = Some (FavoriteStatusData st), q_error = None\<rparr>
          \<and> fst (snd q) key
            = Some \<lparr>entry_data = FavoriteStatusData st, updatedAt = now, isInvalidated = False\<rparr>
          \<and> map request_line (sent (snd (snd q)))
            = map request_line (sent (snd cw')) @
              [(GET, ''/books/'' @ js_number rt bookId @ ''/favorite'', None)]))"
proof -
  obtain c' w' where cw': "handleFavoriteToggle rt True bookId fd (Inr r) (c, w) = (c', w')"
    by (cases "handleFavoriteToggle rt True bookId fd (Inr r) (c, w)")
  have c': "c' = FavoriteButton_onSuccess bookId c"
    using toggle_cache[of rt bookId fd r c w] by (simp add: cw')
  have inv: "\<forall>e. c' [KStr ''bookFavorite'', KNum bookId] = Some e \<longrightarrow> isInvalidated e"
    by (auto simp: c' FavoriteButton_onSuccess_entry)
  have q: "bookId \<noteq> 0 \<Longrightarrow> FavoriteButton_query rt True bookId (Inr st) now (c', w')
     = (\<lparr>q_data = Some (FavoriteStatusData st), q_error = None\<rparr>,
        c'([KStr ''bookFavorite'', KNum bookId]
             \<mapsto> \<lparr>entry_data = FavoriteStatusData st, updatedAt = now, isInvalidated = False\<rparr>),
        snd (apiService_checkFavoriteStatus rt bookId (Inr st) w'))"
    using query_refetches_invalidated[of bookId c' rt st now w'] inv by blast
  show ?thesis
    unfolding Let_def cw'
    using q
    by (simp add: c' FavoriteButton_onSuccess_entry apiService_checkFavoriteStatus_def request_sent)
qed

text \<open>
  The spec's example: book 1 is cached as not favorited, one second old. Before the
  toggle the read is served from the cache; after it the read fetches and shows the
  backend's \<open>favorited: true\<close>.
\<close>

theorem favorite_toggle_invalidates_witness:
  "(let before = FavoriteButton_query sample_runtime True 1 (Inr \<lparr>favorited = True, fav_bookId = 1\<rparr>) 1000
                   (not_favorited_cache, fresh_world);
        cw' = handleFavoriteToggle sample_runtime True 1
                (Some (FavoriteStatusData \<lparr>favorited = False, fav_bookId = 1\<rparr>))
                (Inr ok_response) (not_favorited_cache, fresh_world);
        q = FavoriteButton_query sample_runtime True 1 (Inr \<lparr>favorited = True, fav_bookId = 1\<rparr>) 1000 cw'
    in q_data (fst before) = Some (FavoriteStatusData \<lparr>favorited = False, fav_bookId = 1\<rparr>)
       \<and> sent (snd (snd before)) = []
       \<and> q_data (fst q) = Some (FavoriteStatusData \<lparr>favorited = True, fav_bookId = 1\<rparr>)
       \<and> map request_line (sent (snd (snd q)))
         = [(POST, ''/books/1/favorite'', None), (GET, ''/books/1/favorite'', None)])"
proof -
  have one: "js_number sample_runtime 1 = ''1''"
    by (simp add: js_number_def int_decimal_def nat_digits.simps digit_char_def)
  have nothing_sent: "sent fresh_world = []"
    by (simp add: fresh_world_def)
  have posted:
    "map request_line (sent (snd (handleFavoriteToggle sample_runtime True 1
           (Some (FavoriteStatusData \<lparr>favorited = False, fav_bookId = 1\<rparr>))
           (Inr ok_response) (not_favorited_cache, fresh_world))))
       = [(POST, ''/books/1/favorite'', None)]"
    using toggle_sent[of sample_runtime 1
        "Some (FavoriteStatusData \<lparr>favorited = False, fav_bookId = 1\<rparr>)" ok_response
        not_favorited_cache fresh_world]
    by (simp add: isFavorited_def one nothing_sent)
  have after:
    "q_data (fst (FavoriteButton_query sample_runtime True 1 (Inr \<lparr>favorited = True, fav_bookId = 1\<rparr>) 1000
        (handleFavoriteToggle sample_runtime True 1
           (Some (FavoriteStatusData \<lparr>favorited = False, fav_bookId = 1\<rparr>))
           (Inr ok_response) (not_favorited_cache, fresh_world))))
       = Some (FavoriteStatusData \<lparr>favorited = True, fav_bookId = 1\<rparr>)
     \<and> map request_line (sent (snd (snd (FavoriteButton_query sample_runtime True 1
          (Inr \<lparr>favorited = True, fav_bookId = 1\<rparr>) 1000
          (handleFavoriteToggle sample_runtime True 1
             (Some (FavoriteStatusData \<lparr>favorited = False, fav_bookId = 1\<rparr>))
             (Inr ok_response) (not_favorited_cache, fresh_world))))))
       = [(POST, ''/books/1/favorite'', None), (GET, ''/books/1/favorite'', None)]"
    using favorite_toggle_invalidates[where rt = sample_runtime and bookId = 1
        and fd = "Some (FavoriteStatusData \<lparr>favorited = False, fav_bookId = 1\<rparr>)"
        and r = ok_response and c = not_favorited_cache and w = fresh_world
        and st = "\<lparr>favorited = True, fav_bookId = 1\<rparr>" and now = 1000]
    by (simp add: Let_def one posted)
  have before:
    "FavoriteButton_query sample_runtime True 1 (Inr \<lparr>favorited = True, fav_bookId = 1\<rparr>) 1000
         (not_favorited_cache, fresh_world)
       = (\<lparr>q_data = Some (FavoriteStatusData \<lparr>favorited = False, fav_bookId = 1\<rparr>), q_error = None\<rparr>,
          not_favorited_cache, fresh_world)"
    by (simp add: FavoriteButton_query_def useQuery_def is_fresh_def default_staleTime_def
        not_favorited_cache_def Let_def)
  show ?thesis
    using after by (simp add: Let_def before nothing_sent)
qed

text \<open>
  C6 as stated fails in two places. For book id 0 the status query is disabled
  (\<open>enabled: !!bookId && isAuthenticated\<close>), so after a successful toggle the next read
  fetches nothing and shows no data, while the backend would answer \<open>favorited: true\<close>.
  And a successful removal on the favorites page invalidates \<open>['userFavorites']\<close> only:
  the status entry of book 1, cached as favorited one second ago, stays fresh, and the
  next status read is served from it without a fetch, while the backend would answer
  \<open>favorited: false\<close>.
\<close>

theorem favorite_reads_left_stale:
  "q_data (fst (FavoriteButton_query sample_runtime True 0 (Inr \<lparr>favorited = True, fav_bookId = 0\<rparr>) 1000
             (handleFavoriteToggle sample_runtime True 0 None (Inr ok_response) (Map.empty, fresh_world))))
     = (None :: unit cached option)
   \<and> map request_line
       (sent (snd (handleFavoriteToggle sample_runtime True 0 (None :: unit cached option)
                     (Inr ok_response) (Map.empty, fresh_world))))
     = [(POST, ''/books/0/favorite'', None)]
   \<and> map request_line
       (sent (snd (snd (FavoriteButton_query sample_runtime True 0
                          (Inr \<lparr>favorited = True, fav_bookId = 0\<rparr>) 1000
                          (handleFavoriteToggle sample_runtime True 0 (None :: unit cached option)
                             (Inr ok_response) (Map.empty, fresh_world))))))
     = [(POST, ''/books/0/favorite'', None)]
   \<and> q_data (fst (FavoriteButton_query sample_runtime True 1
                    (Inr \<lparr>favorited = False, fav_bookId = 1\<rparr>) 1000
                    (FavoritesPage_handleRemoveFromFavorites sample_runtime True 1 (Inr ok_response)
                       (favorited_cache, fresh_world))))
     = Some (FavoriteStatusData \<lparr>favorited = True, fav_bookId = 1\<rparr>)
   \<and> map request_line
       (sent (snd (snd (FavoriteButton_query sample_runtime True 1
                          (Inr \<lparr>favorited = False, fav_bookId = 1\<rparr>) 1000
                          (FavoritesPage_handleRemoveFromFavorites sample_runtime True 1 (Inr ok_response)
                             (favorited_cache, fresh_world))))))
     = [(DELETE, ''/books/1/favorite'', None)]"
  by (simp add: handleFavoriteToggle_def addToFavoritesMutation_def isFavorited_def
      apiService_addToFavorites_def apiService_removeFromFavorites_def
      FavoritesPage_handleRemoveFromFavorites_def favorited_cache_def
      request_def requestInterceptor_def getItem_def Let_def
      FavoriteButton_onSuccess_def invalidateQueries_def FavoriteButton_query_def useQuery_def
      is_fresh_def default_staleTime_def
      fresh_world_def request_line_def js_number_def int_decimal_def nat_digits.simps digit_char_def)

text \<open>
  What the two other mutation sites invalidate: the book details page the status key of
  its book, the favorites page the \<open>['userFavorites']\<close> keys.
\<close>

lemma BookDetailsPage_toggle_cache:
  "fst (BookDetailsPage_handleFavoriteToggle rt True bookId fd (Inr r) (c, w)) k
     = (if prefix [KStr ''bookFavorite'', KNum bookId] k
        then map_option (\<lambda>e. e\<lparr>isInvalidated := True\<rparr>) (c k) else c k)"
  by (simp add: BookDetailsPage_handleFavoriteToggle_def BookDetailsPage_onSuccess_def
      invalidateQueries_def apiService_addToFavorites_def apiService_removeFromFavorites_def
      request_def Let_def)

lemma FavoritesPage_remove_cache:
  "fst (FavoritesPage_handleRemoveFromFavorites rt True bookId (Inr r) (c, w)) k
     = (if prefix [KStr ''userFavorites''] k
        then map_option (\<lambda>e. e\<lparr>isInvalidated := True\<rparr>) (c k) else c k)"
  by (simp add: FavoritesPage_handleRemoveFromFavorites_def invalidateQueries_def
      apiService_removeFromFavorites_def request_def Let_def)

section \<open>Recommendation feedback\<close>







section \<open>The AI tab\<close>

text \<open>
  C9, as the code has it. When the user is authenticated, no component error is shown,
  the AI tab is active and the AI response is there, the dashboard renders the header,
  then the "not available" message exactly when the response reports
  \<open>aiAvailable: false\<close>, then one content element: the skeletons while loading, else the
  load error, else the AI empty-list message when there are no recommendations, else
  the cards. So for the same empty list the two conditions differ by the "not available"
  message, and the empty-list message is rendered in both.
\<close>

theorem ai_tab_not_available_message:
  "dash_isAuthenticated d \<and> \<not> truthy (componentError d) \<and> tabValue d = 1
     \<and> aiRecommendationData d = Some r
   \<longrightarrow> RecommendationDashboard d
         = (if showHeader d then [HeaderWithTabs 1] else [])
           @ (if aiAvailable r then [] else [AINotAvailableAlert])
           @ [if aiIsLoading d then Skeletons (limit d)
              else if aiError d \<noteq> None then
                LoadFailedAlert ''Failed to load AI recommendations. Please try again.''
              else if recommendations r = [] then EmptyAlert no_ai_message
              else Cards (recommendations r)]
       \<and> (AINotAvailableAlert \<in> set (RecommendationDashboard d) \<longleftrightarrow> \<not> aiAvailable r)"
  by (auto simp: RecommendationDashboard_def dashboard_body_def tab_content_def truthy_def
      getCurrentLoading_def getCurrentError_def getCurrentRecommendations_def split: option.splits)

theorem ai_tab_not_available_witness:
  "AINotAvailableAlert \<in> set (RecommendationDashboard (ai_inputs False))
   \<and> AINotAvailableAlert \<notin> set (RecommendationDashboard (ai_inputs True))
   \<and> RecommendationDashboard (ai_inputs True) = [HeaderWithTabs 1, EmptyAlert no_ai_message]"
  using
    ai_tab_not_available_message[where d = "ai_inputs False"
      and r = "\<lparr>recommendations = [], resp_userId = 1, resp_count = 0,
                refreshedAt = ''2024-01-01T00:00:00Z'', aiAvailable = False\<rparr>"]
    ai_tab_not_available_message[where d = "ai_inputs True"
      and r = "\<lparr>recommendations = [], resp_userId = 1, resp_count = 0,
                refreshedAt = ''2024-01-01T00:00:00Z'', aiAvailable = True\<rparr>"]
  by (simp add: ai_inputs_def truthy_def)

text \<open>
  C9 as stated fails where it says "rather than": with \<open>aiAvailable: false\<close> and an empty
  list the dashboard renders the "not available" message and the generic AI empty-list
  message below it.
\<close>

theorem ai_unavailable_also_shows_empty_message:
  "RecommendationDashboard (ai_inputs False)
     = [HeaderWithTabs 1, AINotAvailableAlert, EmptyAlert no_ai_message]"
  by (simp add: RecommendationDashboard_def dashboard_body_def tab_content_def ai_inputs_def
      getCurrentLoading_def getCurrentError_def getCurrentRecommendations_def)

section \<open>Change password\<close>

text \<open>
  C10. \<open>changePassword\<close> of the provider sends nothing when the new password and its
  confirmation differ, and otherwise exactly one \<open>PUT /auth/change-password\<close> whose
  body is the two fields \<open>currentPassword\<close> and \<open>newPassword\<close>. The client method sends
  that body for any input, and what it does is the same whatever \<open>confirmPassword\<close>
  holds.
\<close>

theorem changePassword_sends_two_fields:
  "map request_line (sent (snd (changePassword pd out w)))
     = map request_line (sent w) @
       (if newPassword pd \<noteq> confirmPassword pd then []
        else [(PUT, ''/auth/change-password'',
               Some [(''currentPassword'', JStr (currentPassword pd)),
                     (''newPassword'', JStr (newPassword pd))])])
   \<and> map request_line (sent (snd (apiService_changePassword pd out w)))
     = map request_line (sent w) @
       [(PUT, ''/auth/change-password'',
         Some [(''currentPassword'', JStr (currentPassword pd)),
               (''newPassword'', JStr (newPassword pd))])]
   \<and> apiService_changePassword (pd\<lparr>confirmPassword := c\<rparr>) out w = apiService_changePassword pd out w"
  by (auto simp: changePassword_def apiService_changePassword_def request_sent
      split: prod.splits sum.splits
      dest: arg_cong[where f = "\<lambda>p. map request_line (sent (snd p))"])

theorem changePassword_witness:
  "map request_line (sent (snd (changePassword sample_passwords (Inr ok_response) fresh_world)))
     = [(PUT, ''/auth/change-password'',
         Some [(''currentPassword'', JStr ''old-pw''), (''newPassword'', JStr ''new-pw'')])]
   \<and> sent (snd (changePassword (sample_passwords\<lparr>confirmPassword := ''typo''\<rparr>)
                   (Inr ok_response) fresh_world)) = []
   \<and> fst (changePassword (sample_passwords\<lparr>confirmPassword := ''typo''\<rparr>) (Inr ok_response) fresh_world)
     = Inl (Error ''New password and confirm password do not match'')"
  using changePassword_sends_two_fields[where pd = sample_passwords and out = "Inr ok_response"
      and w = fresh_world and c = "''typo''"]
  by (simp add: sample_passwords_def fresh_world_def changePassword_def)

end
